theory Spec2Isabelle
  imports Complex_Main "HOL-Library.Word"
begin

text \<open>
  The ROS node of vdbfusion_ros (\<^verbatim>\<open>VDBVolume_ros.hpp\<close> and its implementation): the range
  filter, the subscriber's callback \<open>Integrate\<close>, the service handler \<open>saveVDBVolume\<close>,
  the timer's callback, the constructor and \<open>main\<close>. The node's state is a record that
  each callback takes and gives back; what a callback does to the outside (log lines,
  files, published messages) is the list of events it returns; the libraries the node
  calls are parameters.
\<close>

section \<open>Scalars\<close>

text \<open>
  The C++ types \<^verbatim>\<open>double\<close> and \<^verbatim>\<open>float\<close>: NaN, the two infinities, and the finite values,
  each as the real number it is. The node's own code copies and compares such values
  and never computes with them: every arithmetic operation is a library's (Eigen's
  \<^verbatim>\<open>norm()\<close>, \<^verbatim>\<open>tf2::doTransform\<close>) and a parameter of the model, so no rounding is modelled
  here. A \<^verbatim>\<open>float\<close> member is promoted to \<^verbatim>\<open>double\<close> before it is compared, so both C++
  types share the one HOL type.
\<close>

datatype double = NaN | NegInf | Fin real | PosInf

type_synonym float = double

text \<open>The operator \<^verbatim>\<open><\<close>, false when an operand is NaN.\<close>

fun dlt :: "double \<Rightarrow> double \<Rightarrow> bool" where
  "dlt NaN _ = False"
| "dlt _ NaN = False"
| "dlt (Fin a) (Fin b) = (a < b)"
| "dlt NegInf NegInf = False"
| "dlt NegInf _ = True"
| "dlt _ NegInf = False"
| "dlt PosInf _ = False"
| "dlt _ PosInf = True"

text \<open>The operators \<^verbatim>\<open>>\<close>, \<^verbatim>\<open><=\<close> and \<^verbatim>\<open>>=\<close>, each false when an operand is NaN.\<close>

definition dgt :: "double \<Rightarrow> double \<Rightarrow> bool" where
  "dgt a b = dlt b a"

definition dle :: "double \<Rightarrow> double \<Rightarrow> bool" where
  "dle a b \<longleftrightarrow> dlt a b \<or> (a \<noteq> NaN \<and> a = b)"

definition dge :: "double \<Rightarrow> double \<Rightarrow> bool" where
  "dge a b = dle b a"

section \<open>Points and the range filter\<close>

text \<open>
  \<^verbatim>\<open>Eigen::Vector3d\<close>. Its \<^verbatim>\<open>norm()\<close> is Eigen's code, computed in double arithmetic: the
  filter takes it as the parameter \<open>norm_of\<close>, the value that \<^verbatim>\<open>p.norm()\<close> returns for
  the point \<open>p\<close>.
\<close>

datatype Vector3d = Vector3d (vx: double) (vy: double) (vz: double)

text \<open>
  The idiom \<^verbatim>\<open>v.erase(std::remove_if(v.begin(), v.end(), pred), v.end())\<close>: the elements
  that satisfy \<open>pred\<close> are dropped, the others keep their order.
\<close>

primrec erase_remove_if :: "('a \<Rightarrow> bool) \<Rightarrow> 'a list \<Rightarrow> 'a list" where
  "erase_remove_if pred [] = []"
| "erase_remove_if pred (p # ps) =
     (if pred p then erase_remove_if pred ps else p # erase_remove_if pred ps)"

text \<open>\<^verbatim>\<open>PreProcessCloud\<close>: first the cull against \<open>max_range\<close>, then the one against \<open>min_range\<close>.\<close>

definition PreProcessCloud ::
  "(Vector3d \<Rightarrow> double) \<Rightarrow> Vector3d list \<Rightarrow> float \<Rightarrow> float \<Rightarrow> Vector3d list" where
  "PreProcessCloud norm_of points min_range max_range =
     erase_remove_if (\<lambda>p. dlt (norm_of p) min_range)
       (erase_remove_if (\<lambda>p. dgt (norm_of p) max_range) points)"

text \<open>
  The specification's reading of the filter, in its own words: a point is kept when its
  norm is at least \<open>min_range\<close> and at most \<open>max_range\<close>.
\<close>

definition within_range :: "(Vector3d \<Rightarrow> double) \<Rightarrow> float \<Rightarrow> float \<Rightarrow> Vector3d \<Rightarrow> bool" where
  "within_range norm_of min_range max_range p \<longleftrightarrow>
     dge (norm_of p) min_range \<and> dle (norm_of p) max_range"

section \<open>Messages\<close>

text \<open>
  \<^verbatim>\<open>ros::Time\<close> and \<^verbatim>\<open>ros::Duration\<close> in nanoseconds, and the message types the node reads
  and writes. The fields of a message carry a prefix, since a field name is a constant.
\<close>

type_synonym Time = nat

type_synonym Duration = int

record Header =
  stamp :: Time
  frame_id :: string

datatype Point32 = Point32 (p32_x: float) (p32_y: float) (p32_z: float)

text \<open>
  \<^verbatim>\<open>sensor_msgs::PointCloud2\<close>: the payload (width, height, fields, data) is abstracted to
  the list of points that \<^verbatim>\<open>sensor_msgs::convertPointCloud2ToPointCloud\<close> reads from it.
  A default-constructed message has no fields and no data, hence no points.
\<close>

record PointCloud2 =
  pc2_header :: Header
  pc2_points :: "Point32 list"

record PointCloud =
  pc_header :: Header
  pc_points :: "Point32 list"

datatype Vector3 = Vector3 (v3_x: double) (v3_y: double) (v3_z: double)

datatype Quaternion = Quaternion (q_x: double) (q_y: double) (q_z: double) (q_w: double)

record Transform_msg =
  translation :: Vector3
  rotation :: Quaternion

record TransformStamped =
  ts_header :: Header
  child_frame_id :: string
  ts_transform :: Transform_msg

datatype Point = Point (pt_x: double) (pt_y: double) (pt_z: double)

text \<open>
  The C++ \<^verbatim>\<open>int\<close> of \<^verbatim>\<open>Eigen::Vector3i\<close> and the \<^verbatim>\<open>uint32\<close> of a triangle's
  \<^verbatim>\<open>vertex_indices\<close> are both 32-bit words: \<open>sint\<close> reads the first, \<open>unat\<close> the second,
  and the conversion of the one into the other keeps every bit.
\<close>

type_synonym int32 = "32 word"

type_synonym uint32 = "32 word"

datatype Vector3i = Vector3i (t0: int32) (t1: int32) (t2: int32)

record MeshTriangleIndices =
  vertex_indices :: "uint32 list"

record MeshGeometry =
  mg_vertices :: "Point list"
  mg_vertex_normals :: "Point list"
  mg_faces :: "MeshTriangleIndices list"

record MeshGeometryStamped =
  mesh_header :: Header
  uuid :: string
  mesh_geometry :: MeshGeometry

record Request =
  req_path :: string

text \<open>A default-constructed message: numbers are zero, strings and arrays are empty.\<close>

definition Header_default :: Header where
  "Header_default = \<lparr>stamp = 0, frame_id = []\<rparr>"

definition PointCloud2_default :: PointCloud2 where
  "PointCloud2_default = \<lparr>pc2_header = Header_default, pc2_points = []\<rparr>"

definition TransformStamped_default :: TransformStamped where
  "TransformStamped_default =
     \<lparr>ts_header = Header_default, child_frame_id = [],
      ts_transform = \<lparr>translation = Vector3 (Fin 0) (Fin 0) (Fin 0),
                      rotation = Quaternion (Fin 0) (Fin 0) (Fin 0) (Fin 0)\<rparr>\<rparr>"

definition MeshTriangleIndices_default :: MeshTriangleIndices where
  "MeshTriangleIndices_default = \<lparr>vertex_indices = [0, 0, 0]\<rparr>"

definition MeshGeometryStamped_default :: MeshGeometryStamped where
  "MeshGeometryStamped_default =
     \<lparr>mesh_header = Header_default, uuid = [],
      mesh_geometry = \<lparr>mg_vertices = [], mg_vertex_normals = [], mg_faces = []\<rparr>\<rparr>"

section \<open>What the node does to the outside\<close>

text \<open>
  Every call that leaves the node is an event of the node's trace, in the order of the
  calls: a log line (the format string of \<^verbatim>\<open>ROS_INFO\<close>), a file written by OpenVDB or by
  libigl with its name and content, a message published on the mesh topic, and the
  registrations of the constructor.
\<close>

datatype FileEncoding = Ascii | Binary

datatype 'grid event =
    ROS_INFO string
  | openvdb_initialize
  | subscribe string nat
  | advertiseService string
  | advertise string nat bool
  | createTimer float
  | openvdb_File_write string "'grid list"
  | igl_write_triangle_mesh string "double list list" "int32 list list" FileEncoding
  | publish MeshGeometryStamped

text \<open>
  What the outside hands back during one callback: the reading of \<^verbatim>\<open>ros::Time::now()\<close>
  and the boolean that \<^verbatim>\<open>igl::write_triangle_mesh\<close> returns (true when the file was
  written).
\<close>

record outside =
  Time_now :: Time
  write_triangle_mesh_result :: bool

text \<open>
  The collaborators whose code is not part of the node: the transform buffer of
  \<^verbatim>\<open>Transform.hpp\<close>, \<^verbatim>\<open>tf2::doTransform\<close>, Eigen's \<^verbatim>\<open>norm()\<close>, and the volume of the
  vdbfusion library (its constructor, its methods \<^verbatim>\<open>Integrate\<close> and
  \<^verbatim>\<open>ExtractTriangleMesh\<close>, and its public member \<^verbatim>\<open>tsdf_\<close>). They are parameters of the
  model. \<open>lookUpTransform\<close> gets the buffer, the stamp, the tolerance and the content of
  its output argument, and gives back its boolean, the output argument and the buffer.
  The two methods are called on the member \<open>vdb_volume_\<close>, which is not const: each
  gives back the volume as the call leaves it, \<open>ExtractTriangleMesh\<close> together with the
  mesh it returns.
\<close>

record ('vol, 'grid, 'tf) collaborators =
  Transform_new :: 'tf
  lookUpTransform :: "'tf \<Rightarrow> Time \<Rightarrow> Duration \<Rightarrow> TransformStamped \<Rightarrow> bool \<times> TransformStamped \<times> 'tf"
  doTransform :: "PointCloud2 \<Rightarrow> TransformStamped \<Rightarrow> PointCloud2"
  Vector3d_norm :: "Vector3d \<Rightarrow> double"
  VDBVolume_new :: "float \<Rightarrow> float \<Rightarrow> bool \<Rightarrow> 'vol"
  VDBVolume_Integrate :: "'vol \<Rightarrow> Vector3d list \<Rightarrow> Vector3d \<Rightarrow> (float \<Rightarrow> double) \<Rightarrow> 'vol"
  tsdf :: "'vol \<Rightarrow> 'grid"
  ExtractTriangleMesh :: "'vol \<Rightarrow> bool \<Rightarrow> float \<Rightarrow> (Vector3d list \<times> Vector3i list) \<times> 'vol"

section \<open>The node\<close>

text \<open>
  The data members of \<^verbatim>\<open>VDBVolumeNode\<close>; the trailing underscore of a member's name is
  written \<open>_m\<close>. The handles \<^verbatim>\<open>nh_\<close>, \<^verbatim>\<open>sub_\<close>, \<^verbatim>\<open>srv_\<close> and \<^verbatim>\<open>mesh_geometry_pub_\<close> have no
  state of their own here: what is done through them is in the trace. \<open>serviceTimer\<close> is
  \<open>None\<close> for the default-constructed timer (no timer runs) and \<open>Some period\<close> once
  \<^verbatim>\<open>createTimer\<close> has made one.
\<close>

record ('vol, 'tf) VDBVolumeNode_state =
  tf_m :: 'tf
  timestamp_tolerance_m :: Duration
  serviceTimer :: "float option"
  vdb_volume_m :: 'vol
  preprocess_m :: bool
  apply_pose_m :: bool
  min_range_m :: float
  max_range_m :: float
  fill_holes_m :: bool
  min_weight_m :: float
  save_publish_wait_time :: float
  save_path_m :: string

subsection \<open>Ingestion\<close>

definition convertPointCloud2ToPointCloud :: "PointCloud2 \<Rightarrow> PointCloud" where
  "convertPointCloud2ToPointCloud pcl2 =
     \<lparr>pc_header = pc2_header pcl2, pc_points = pc2_points pcl2\<rparr>"

text \<open>\<^verbatim>\<open>pcl2SensorMsgToEigen\<close>: the \<^verbatim>\<open>for_each\<close> appends one vector per point.\<close>

definition pcl2SensorMsgToEigen :: "PointCloud2 \<Rightarrow> Vector3d list" where
  "pcl2SensorMsgToEigen pcl2 =
     (let pcl = convertPointCloud2ToPointCloud pcl2
      in foldl (\<lambda>points point. points @ [Vector3d (p32_x point) (p32_y point) (p32_z point)])
           [] (pc_points pcl))"

text \<open>
  \<^verbatim>\<open>VDBVolumeNode::Integrate\<close>, the subscriber's callback. \<open>pcd_out\<close> is declared
  default-constructed and is assigned only by \<^verbatim>\<open>tf2::doTransform\<close>, under \<open>apply_pose_\<close>;
  the scan is read from \<open>pcd_out\<close> in either case. The weighting function is the constant
  1.0. Without a transform the body is skipped (there is no else branch).
\<close>

definition Integrate ::
  "('vol, 'grid, 'tf) collaborators \<Rightarrow> ('vol, 'tf) VDBVolumeNode_state \<Rightarrow> PointCloud2 \<Rightarrow>
     ('vol, 'tf) VDBVolumeNode_state \<times> 'grid event list" where
  "Integrate ext node pcd =
     (let pcd_out0 = PointCloud2_default;
          (found, transform, tf') =
             lookUpTransform ext (tf_m node) (stamp (pc2_header pcd)) (timestamp_tolerance_m node)
               TransformStamped_default
      in if found then
           (let pcd_out = (if apply_pose_m node then doTransform ext pcd transform else pcd_out0);
                scan0 = pcl2SensorMsgToEigen pcd_out;
                scan = (if preprocess_m node
                        then PreProcessCloud (Vector3d_norm ext) scan0
                               (min_range_m node) (max_range_m node)
                        else scan0);
                x = v3_x (translation (ts_transform transform));
                y = v3_y (translation (ts_transform transform));
                z = v3_z (translation (ts_transform transform));
                origin = Vector3d x y z
            in (node\<lparr>tf_m := tf',
                      vdb_volume_m := VDBVolume_Integrate ext (vdb_volume_m node) scan origin
                                        (\<lambda>_. Fin 1)\<rparr>,
                [ROS_INFO ''Transform available'']))
         else (node\<lparr>tf_m := tf'\<rparr>, []))"

subsection \<open>Export\<close>

text \<open>
  \<^verbatim>\<open>Eigen::MatrixXd V(rows, 3)\<close> and \<^verbatim>\<open>Eigen::MatrixXi F(rows, 3)\<close> as lists of rows. Their
  coefficients are not initialised by Eigen; they stand here as NaN and as 0, and the
  loops assign every row before the matrix is read.
\<close>

definition MatrixXd :: "nat \<Rightarrow> nat \<Rightarrow> double list list" where
  "MatrixXd rows cols = replicate rows (replicate cols NaN)"

definition MatrixXi :: "nat \<Rightarrow> nat \<Rightarrow> int32 list list" where
  "MatrixXi rows cols = replicate rows (replicate cols 0)"

text \<open>The body of the loop over the vertices, at index \<open>i\<close>.\<close>

definition vertices_body ::
  "Vector3d list \<Rightarrow> double list list \<times> MeshGeometryStamped \<Rightarrow> nat \<Rightarrow>
     double list list \<times> MeshGeometryStamped" where
  "vertices_body vertices s i =
     (case s of (V, mesh_msg) \<Rightarrow>
        (let V' = V[i := [vx (vertices ! i), vy (vertices ! i), vz (vertices ! i)]];
             p = Point (vx (vertices ! i)) (vy (vertices ! i)) (vz (vertices ! i))
         in (V', mesh_msg\<lparr>mesh_geometry := (mesh_geometry mesh_msg)
                     \<lparr>mg_vertices := mg_vertices (mesh_geometry mesh_msg) @ [p]\<rparr>\<rparr>)))"

text \<open>The body of the loop over the triangles, at index \<open>i\<close>.\<close>

definition triangles_body ::
  "Vector3i list \<Rightarrow> int32 list list \<times> MeshGeometryStamped \<Rightarrow> nat \<Rightarrow>
     int32 list list \<times> MeshGeometryStamped" where
  "triangles_body triangles s i =
     (case s of (F, mesh_msg) \<Rightarrow>
        (let F' = F[i := [t0 (triangles ! i), t1 (triangles ! i), t2 (triangles ! i)]];
             indices = MeshTriangleIndices_default
               \<lparr>vertex_indices := (vertex_indices MeshTriangleIndices_default)
                  [0 := t0 (triangles ! i), 1 := t1 (triangles ! i), 2 := t2 (triangles ! i)]\<rparr>
         in (F', mesh_msg\<lparr>mesh_geometry := (mesh_geometry mesh_msg)
                     \<lparr>mg_faces := mg_faces (mesh_geometry mesh_msg) @ [indices]\<rparr>\<rparr>)))"

text \<open>
  \<^verbatim>\<open>VDBVolumeNode::saveVDBVolume\<close>, the handler of the service. It returns the boolean of
  its only \<^verbatim>\<open>return\<close> statement, the node after the call and the trace. The handler
  assigns no member; the one call it makes on a member is \<^verbatim>\<open>ExtractTriangleMesh\<close>, on
  the volume, after the grid has been handed to OpenVDB. It never writes to its
  \<^verbatim>\<open>response\<close> argument, which is therefore left out. The value that
  \<^verbatim>\<open>igl::write_triangle_mesh\<close> returns is not bound to anything in the source.
\<close>

definition saveVDBVolume ::
  "('vol, 'grid, 'tf) collaborators \<Rightarrow> ('vol, 'tf) VDBVolumeNode_state \<Rightarrow> Request \<Rightarrow> outside \<Rightarrow>
     bool \<times> ('vol, 'tf) VDBVolumeNode_state \<times> 'grid event list" where
  "saveVDBVolume ext node path out =
     (let volume_name = req_path path;
          grid = tsdf ext (vdb_volume_m node);
          ((vertices, triangles), volume') =
             ExtractTriangleMesh ext (vdb_volume_m node) (fill_holes_m node) (min_weight_m node);
          (V, mesh_msg1) =
             foldl (vertices_body vertices)
               (MatrixXd (length vertices) 3, MeshGeometryStamped_default) [0..<length vertices];
          (F, mesh_msg2) =
             foldl (triangles_body triangles)
               (MatrixXi (length triangles) 3, mesh_msg1) [0..<length triangles];
          (_ :: bool) = write_triangle_mesh_result out
      in (True,
          node\<lparr>vdb_volume_m := volume'\<rparr>,
          [ROS_INFO ''Saving the mesh and VDB grid files ...'',
           openvdb_File_write (volume_name @ ''_grid.vdb'') [grid],
           igl_write_triangle_mesh (volume_name @ ''_mesh.ply'') V F Binary,
           ROS_INFO ''Done saving the mesh and VDB grid files''] @
          (if length vertices > 0
           then [ROS_INFO ''Publishing mesh geometry'',
                 publish (mesh_msg2\<lparr>uuid := ''uuid'',
                            mesh_header := (mesh_header mesh_msg2)
                              \<lparr>frame_id := ''map'', stamp := Time_now out\<rparr>\<rparr>)]
           else [])))"

text \<open>\<^verbatim>\<open>VDBVolumeNode::TimerCallback\<close>: the same handler, on the member \<open>save_path_\<close>.\<close>

definition TimerCallback ::
  "('vol, 'grid, 'tf) collaborators \<Rightarrow> ('vol, 'tf) VDBVolumeNode_state \<Rightarrow> outside \<Rightarrow>
     ('vol, 'tf) VDBVolumeNode_state \<times> 'grid event list" where
  "TimerCallback ext node out =
     (let req = \<lparr>req_path = save_path_m node\<rparr>;
          (_ :: bool, node', events) = saveVDBVolume ext node req out
      in (node', ROS_INFO ''Auto invoking service call with save path %s'' # events))"

subsection \<open>Construction\<close>

text \<open>
  The parameter server as the constructor sees it: one entry for each key it asks for,
  \<open>None\<close> when \<^verbatim>\<open>getParam\<close> finds no value of the variable's type under the key. Then
  \<^verbatim>\<open>getParam\<close> leaves the variable as it was, and the node never looks at the boolean
  \<^verbatim>\<open>getParam\<close> returns.
\<close>

record ros_params =
  param_voxel_size :: "float option"
  param_sdf_trunc :: "float option"
  param_space_carving :: "bool option"
  param_pcl_topic :: "string option"
  param_preprocess :: "bool option"
  param_apply_pose :: "bool option"
  param_min_range :: "float option"
  param_max_range :: "float option"
  param_fill_holes :: "bool option"
  param_min_weight :: "float option"
  param_save_publish_wait_time :: "float option"
  param_save_path :: "string option"
  param_timestamp_tolerance_ns :: "int option"

definition getParam :: "'a option \<Rightarrow> 'a \<Rightarrow> 'a" where
  "getParam entry var = (case entry of Some v \<Rightarrow> v | None \<Rightarrow> var)"

text \<open>
  The header declares the members of arithmetic type without an initialiser, the
  constructor's initialiser list names only \<open>vdb_volume_\<close> and \<open>tf_\<close>, and the locals
  of \<^verbatim>\<open>InitVDBVolume\<close> and \<open>tol\<close> are declared without a value as well. What such a
  variable holds before \<^verbatim>\<open>getParam\<close> is called on it is an input of the model.
\<close>

record indeterminate =
  init_voxel_size :: float
  init_sdf_trunc :: float
  init_space_carving :: bool
  init_preprocess :: bool
  init_apply_pose :: bool
  init_min_range :: float
  init_max_range :: float
  init_fill_holes :: bool
  init_min_weight :: float
  init_save_publish_wait_time :: float
  init_tol :: int

definition InitVDBVolume ::
  "('vol, 'grid, 'tf) collaborators \<Rightarrow> ros_params \<Rightarrow> indeterminate \<Rightarrow> 'vol" where
  "InitVDBVolume ext params mem =
     (let voxel_size = getParam (param_voxel_size params) (init_voxel_size mem);
          sdf_trunc = getParam (param_sdf_trunc params) (init_sdf_trunc mem);
          space_carving = getParam (param_space_carving params) (init_space_carving mem)
      in VDBVolume_new ext voxel_size sdf_trunc space_carving)"

text \<open>
  The constructor \<^verbatim>\<open>VDBVolumeNode::VDBVolumeNode\<close>: the node it builds and its trace.
  \<^verbatim>\<open>ros::Duration(0, tol)\<close> is \<open>tol\<close> nanoseconds. The timer is created under the test
  \<^verbatim>\<open>save_publish_wait_time > 0\<close> and nowhere else.
\<close>

definition VDBVolumeNode ::
  "('vol, 'grid, 'tf) collaborators \<Rightarrow> ros_params \<Rightarrow> indeterminate \<Rightarrow>
     ('vol, 'tf) VDBVolumeNode_state \<times> 'grid event list" where
  "VDBVolumeNode ext params mem =
     (let pcl_topic = getParam (param_pcl_topic params) [];
          tol = getParam (param_timestamp_tolerance_ns params) (init_tol mem);
          queue_size = 500;
          node = \<lparr>tf_m = Transform_new ext,
                  timestamp_tolerance_m = tol,
                  serviceTimer = None,
                  vdb_volume_m = InitVDBVolume ext params mem,
                  preprocess_m = getParam (param_preprocess params) (init_preprocess mem),
                  apply_pose_m = getParam (param_apply_pose params) (init_apply_pose mem),
                  min_range_m = getParam (param_min_range params) (init_min_range mem),
                  max_range_m = getParam (param_max_range params) (init_max_range mem),
                  fill_holes_m = getParam (param_fill_holes params) (init_fill_holes mem),
                  min_weight_m = getParam (param_min_weight params) (init_min_weight mem),
                  save_publish_wait_time =
                    getParam (param_save_publish_wait_time params) (init_save_publish_wait_time mem),
                  save_path_m = getParam (param_save_path params) []\<rparr>;
          registrations =
            [openvdb_initialize,
             subscribe pcl_topic queue_size,
             advertiseService ''/save_vdb_volume'',
             advertise ''mesh'' 1 True]
      in if dgt (save_publish_wait_time node) (Fin 0)
         then (node\<lparr>serviceTimer := Some (save_publish_wait_time node)\<rparr>,
               registrations @
               [ROS_INFO ''Setting up timer callback every %f seconds to auto save and publish the integrated volume.'',
                createTimer (save_publish_wait_time node)])
         else (node,
               registrations @
               [ROS_INFO ''save_publish_wait_time not set. Use '/save_vdb_volume' service to save the integrated volume.'']))"

subsection \<open>The callback queue\<close>

text \<open>
  \<^verbatim>\<open>main\<close> constructs the node and calls \<^verbatim>\<open>ros::spin()\<close>, which takes the pending callbacks
  one after the other: a message of the subscription runs \<open>Integrate\<close>, a call of the
  service runs \<open>saveVDBVolume\<close>, and an expiry of \<open>serviceTimer\<close> runs \<open>TimerCallback\<close>. A
  timer that was never created has no expiry to deliver.
\<close>

datatype trigger = PointCloudMsg PointCloud2 | ServiceCall Request | TimerEvent

definition callback ::
  "('vol, 'grid, 'tf) collaborators \<Rightarrow> ('vol, 'tf) VDBVolumeNode_state \<Rightarrow> trigger \<Rightarrow> outside \<Rightarrow>
     ('vol, 'tf) VDBVolumeNode_state \<times> 'grid event list" where
  "callback ext node trig out =
     (case trig of
        PointCloudMsg pcd \<Rightarrow> Integrate ext node pcd
      | ServiceCall req \<Rightarrow> snd (saveVDBVolume ext node req out)
      | TimerEvent \<Rightarrow>
          (case serviceTimer node of
             None \<Rightarrow> (node, [])
           | Some period \<Rightarrow> TimerCallback ext node out))"

fun spin ::
  "('vol, 'grid, 'tf) collaborators \<Rightarrow> ('vol, 'tf) VDBVolumeNode_state \<Rightarrow>
     (trigger \<times> outside) list \<Rightarrow> ('vol, 'tf) VDBVolumeNode_state \<times> 'grid event list" where
  "spin ext node [] = (node, [])"
| "spin ext node ((trig, out) # pending) =
     (case callback ext node trig out of
        (node1, events1) \<Rightarrow>
          (case spin ext node1 pending of
             (node2, events2) \<Rightarrow> (node2, events1 @ events2)))"

subsection \<open>Reading a trace\<close>

fun published :: "'grid event list \<Rightarrow> MeshGeometryStamped list" where
  "published [] = []"
| "published (publish mesh_msg # events) = mesh_msg # published events"
| "published (_ # events) = published events"

fun file_writes :: "'grid event list \<Rightarrow> 'grid event list" where
  "file_writes [] = []"
| "file_writes (openvdb_File_write name grids # events) =
     openvdb_File_write name grids # file_writes events"
| "file_writes (igl_write_triangle_mesh name V F enc # events) =
     igl_write_triangle_mesh name V F enc # file_writes events"
| "file_writes (_ # events) = file_writes events"

text \<open>
  The files that are there after a callback with the trace \<open>events\<close>: the mesh file when
  \<^verbatim>\<open>igl::write_triangle_mesh\<close> returned true, and the file handed to OpenVDB, whose
  \<^verbatim>\<open>write\<close> gives nothing back to look at.
\<close>

fun files_written :: "outside \<Rightarrow> 'grid event list \<Rightarrow> string list" where
  "files_written out [] = []"
| "files_written out (openvdb_File_write name grids # events) =
     name # files_written out events"
| "files_written out (igl_write_triangle_mesh name V F enc # events) =
     (if write_triangle_mesh_result out then name # files_written out events
      else files_written out events)"
| "files_written out (_ # events) = files_written out events"

fun meshes_written :: "'grid event list \<Rightarrow> (double list list \<times> int32 list list) list" where
  "meshes_written [] = []"
| "meshes_written (igl_write_triangle_mesh name V F enc # events) = (V, F) # meshes_written events"
| "meshes_written (_ # events) = meshes_written events"

fun timers_created :: "'grid event list \<Rightarrow> float list" where
  "timers_created [] = []"
| "timers_created (createTimer period # events) = period # timers_created events"
| "timers_created (_ # events) = timers_created events"

text \<open>
  \<^verbatim>\<open>main\<close>, after \<^verbatim>\<open>ros::init\<close>: the node is constructed once, then the callbacks run from
  the queue.
\<close>

definition main ::
  "('vol, 'grid, 'tf) collaborators \<Rightarrow> ros_params \<Rightarrow> indeterminate \<Rightarrow> (trigger \<times> outside) list \<Rightarrow>
     ('vol, 'tf) VDBVolumeNode_state \<times> 'grid event list" where
  "main ext params mem pending =
     (case VDBVolumeNode ext params mem of
        (vdb_volume_node, events0) \<Rightarrow>
          (case spin ext vdb_volume_node pending of
             (node', events) \<Rightarrow> (node', events0 @ events)))"

text \<open>The mesh that an export of the node extracts from its volume.\<close>

definition extracted_mesh ::
  "('vol, 'grid, 'tf) collaborators \<Rightarrow> ('vol, 'tf) VDBVolumeNode_state \<Rightarrow>
     Vector3d list \<times> Vector3i list" where
  "extracted_mesh ext node =
     fst (ExtractTriangleMesh ext (vdb_volume_m node) (fill_holes_m node) (min_weight_m node))"

text \<open>
  Modelled from the spec: the extraction of the volume engine, the method
  \<^verbatim>\<open>ExtractTriangleMesh\<close> of vdbfusion's \<^verbatim>\<open>VDBVolume\<close>, whose code is not among the sources
  of the node. The specification says of the volume that only ingestion mutates it and
  that the export only reads a snapshot of it for extraction, by an external algorithm
  parameterized by the hole-filling flag and the minimum-weight threshold: a call of
  the extraction leaves the volume as it found it, and the mesh it returns is a
  function of the volume, the flag and the threshold.
\<close>

definition extraction_reads_snapshot :: "('vol, 'grid, 'tf) collaborators \<Rightarrow> bool" where
  "extraction_reads_snapshot ext \<longleftrightarrow>
     (\<forall>volume fill_holes min_weight.
        snd (ExtractTriangleMesh ext volume fill_holes min_weight) = volume)"

text \<open>
  An extracted mesh as the matrices written to the mesh file and as the vertex and face
  lists of the message: every coordinate and every index of the mesh, in its order.
\<close>

definition vertex_rows :: "Vector3d list \<Rightarrow> double list list" where
  "vertex_rows vertices = map (\<lambda>v. [vx v, vy v, vz v]) vertices"

definition triangle_rows :: "Vector3i list \<Rightarrow> int32 list list" where
  "triangle_rows triangles = map (\<lambda>t. [t0 t, t1 t, t2 t]) triangles"

definition vertex_points :: "Vector3d list \<Rightarrow> Point list" where
  "vertex_points vertices = map (\<lambda>v. Point (vx v) (vy v) (vz v)) vertices"

definition triangle_indices :: "Vector3i list \<Rightarrow> MeshTriangleIndices list" where
  "triangle_indices triangles = map (\<lambda>t. \<lparr>vertex_indices = [t0 t, t1 t, t2 t]\<rparr>) triangles"

section \<open>A recording instance of the collaborators\<close>

text \<open>
  An instance of the collaborators, for evaluating the theorems at concrete inputs: a
  transform buffer that is a list of stamped poses (one pose, stamped 100, from the
  start) and answers with the first pose within the tolerance of the stamp, a transform
  that shifts every point by the translation, the norm without rounding (which is not
  Eigen's on every point), and a volume that records the batches it was given. Its grid
  is the record itself; its extraction leaves it as it is, and the mesh has the recorded
  points as vertices and one triangle over the first three of them.
\<close>

fun dadd :: "double \<Rightarrow> double \<Rightarrow> double" where
  "dadd NaN _ = NaN"
| "dadd _ NaN = NaN"
| "dadd (Fin a) (Fin b) = Fin (a + b)"
| "dadd PosInf NegInf = NaN"
| "dadd NegInf PosInf = NaN"
| "dadd PosInf _ = PosInf"
| "dadd _ PosInf = PosInf"
| "dadd NegInf _ = NegInf"
| "dadd _ NegInf = NegInf"

fun exact_norm :: "Vector3d \<Rightarrow> double" where
  "exact_norm (Vector3d (Fin a) (Fin b) (Fin c)) = Fin (sqrt (a * a + b * b + c * c))"
| "exact_norm (Vector3d NaN _ _) = NaN"
| "exact_norm (Vector3d _ NaN _) = NaN"
| "exact_norm (Vector3d _ _ NaN) = NaN"
| "exact_norm _ = PosInf"

type_synonym recording = "(Vector3d list \<times> Vector3d) list"

type_synonym pose_buffer = "(Time \<times> TransformStamped) list"

definition buffer_lookUp ::
  "pose_buffer \<Rightarrow> Time \<Rightarrow> Duration \<Rightarrow> TransformStamped \<Rightarrow> bool \<times> TransformStamped \<times> pose_buffer" where
  "buffer_lookUp buffer t tolerance transform =
     (case filter (\<lambda>entry. \<bar>int (fst entry) - int t\<bar> \<le> tolerance) buffer of
        [] \<Rightarrow> (False, transform, buffer)
      | entry # _ \<Rightarrow> (True, snd entry, buffer))"

definition shift_cloud :: "PointCloud2 \<Rightarrow> TransformStamped \<Rightarrow> PointCloud2" where
  "shift_cloud p_in t_in =
     \<lparr>pc2_header = ts_header t_in,
      pc2_points =
        map (\<lambda>p. Point32 (dadd (p32_x p) (v3_x (translation (ts_transform t_in))))
                          (dadd (p32_y p) (v3_y (translation (ts_transform t_in))))
                          (dadd (p32_z p) (v3_z (translation (ts_transform t_in)))))
          (pc2_points p_in)\<rparr>"

definition recorded_mesh ::
  "recording \<Rightarrow> bool \<Rightarrow> float \<Rightarrow> (Vector3d list \<times> Vector3i list) \<times> recording" where
  "recorded_mesh vol fill_holes min_weight =
     ((concat (map fst vol),
       if 3 \<le> length (concat (map fst vol)) then [Vector3i 0 1 2] else []),
      vol)"

definition pose_at_100 :: TransformStamped where
  "pose_at_100 =
     \<lparr>ts_header = \<lparr>stamp = 100, frame_id = ''odom''\<rparr>, child_frame_id = ''lidar'',
      ts_transform = \<lparr>translation = Vector3 (Fin 1) (Fin 2) (Fin 3),
                      rotation = Quaternion (Fin 0) (Fin 0) (Fin 0) (Fin 1)\<rparr>\<rparr>"

definition recording_ext :: "(recording, recording, pose_buffer) collaborators" where
  "recording_ext =
     \<lparr>Transform_new = [(100, pose_at_100)],
      lookUpTransform = buffer_lookUp,
      doTransform = shift_cloud,
      Vector3d_norm = exact_norm,
      VDBVolume_new = (\<lambda>voxel_size sdf_trunc space_carving. []),
      VDBVolume_Integrate = (\<lambda>vol points origin weighting_function. vol @ [(points, origin)]),
      tsdf = (\<lambda>vol. vol),
      ExtractTriangleMesh = recorded_mesh\<rparr>"

definition scan_at :: "Time \<Rightarrow> PointCloud2" where
  "scan_at t =
     \<lparr>pc2_header = \<lparr>stamp = t, frame_id = ''lidar''\<rparr>,
      pc2_points = [Point32 (Fin 4) (Fin 0) (Fin 0), Point32 (Fin 0) (Fin 5) (Fin 0),
                    Point32 (Fin 0) (Fin 0) (Fin 6)]\<rparr>"

definition sample_node :: "(recording, pose_buffer) VDBVolumeNode_state" where
  "sample_node =
     \<lparr>tf_m = [(100, pose_at_100)],
      timestamp_tolerance_m = 10,
      serviceTimer = None,
      vdb_volume_m = [],
      preprocess_m = False,
      apply_pose_m = True,
      min_range_m = Fin 1,
      max_range_m = Fin 10,
      fill_holes_m = True,
      min_weight_m = Fin 5,
      save_publish_wait_time = Fin 0,
      save_path_m = ''/tmp/vol''\<rparr>"

definition sample_params :: ros_params where
  "sample_params =
     \<lparr>param_voxel_size = Some (Fin 1),
      param_sdf_trunc = Some (Fin 3),
      param_space_carving = Some False,
      param_pcl_topic = Some ''/points'',
      param_preprocess = Some False,
      param_apply_pose = Some True,
      param_min_range = Some (Fin 1),
      param_max_range = Some (Fin 10),
      param_fill_holes = Some True,
      param_min_weight = Some (Fin 5),
      param_save_publish_wait_time = Some (Fin 0),
      param_save_path = Some ''/tmp/vol'',
      param_timestamp_tolerance_ns = Some 10\<rparr>"

definition sample_mem :: indeterminate where
  "sample_mem =
     \<lparr>init_voxel_size = NaN,
      init_sdf_trunc = NaN,
      init_space_carving = True,
      init_preprocess = True,
      init_apply_pose = False,
      init_min_range = NaN,
      init_max_range = NaN,
      init_fill_holes = False,
      init_min_weight = NaN,
      init_save_publish_wait_time = Fin 5,
      init_tol = 0\<rparr>"

definition sample_out :: "bool \<Rightarrow> outside" where
  "sample_out written = \<lparr>Time_now = 123, write_triangle_mesh_result = written\<rparr>"

section \<open>The range filter\<close>

lemma erase_remove_if_filter: "erase_remove_if pred ps = filter (\<lambda>p. \<not> pred p) ps"
  by (induction ps) simp_all

text \<open>For all bounds and points: a point stays when neither comparison of the culls is true.\<close>

lemma PreProcessCloud_filter:
  "PreProcessCloud norm_of points min_range max_range =
     filter (\<lambda>p. \<not> dgt (norm_of p) max_range \<and> \<not> dlt (norm_of p) min_range) points"
  by (simp add: PreProcessCloud_def erase_remove_if_filter conj_commute)

lemma not_dgt_iff: "a \<noteq> NaN \<Longrightarrow> b \<noteq> NaN \<Longrightarrow> \<not> dgt a b \<longleftrightarrow> dle a b"
  by (cases a; cases b) (auto simp: dgt_def dle_def)

lemma not_dlt_iff: "a \<noteq> NaN \<Longrightarrow> b \<noteq> NaN \<Longrightarrow> \<not> dlt a b \<longleftrightarrow> dge a b"
  by (cases a; cases b) (auto simp: dge_def dle_def)

lemma NaN_compares_false: "\<not> dgt NaN b" "\<not> dlt NaN b" "\<not> dge NaN b" "\<not> dle NaN b"
  by (cases b; simp add: dgt_def dge_def dle_def)+

lemma kept_iff:
  assumes "min_range \<noteq> NaN" and "max_range \<noteq> NaN"
  shows "\<not> dgt (norm_of p) max_range \<and> \<not> dlt (norm_of p) min_range \<longleftrightarrow>
         norm_of p = NaN \<or> within_range norm_of min_range max_range p"
proof (cases "norm_of p = NaN")
  case True
  then show ?thesis by (simp add: NaN_compares_false)
next
  case False
  with assms show ?thesis
    by (simp add: within_range_def not_dgt_iff not_dlt_iff conj_commute)
qed

lemma within_range_empty:
  "dgt min_range max_range \<Longrightarrow> \<not> within_range norm_of min_range max_range p"
  by (cases min_range; cases max_range; cases "norm_of p")
     (auto simp: within_range_def dgt_def dge_def dle_def)

lemma exact_norm_axis: "0 \<le> a \<Longrightarrow> exact_norm (Vector3d (Fin a) (Fin 0) (Fin 0)) = Fin a"
  by simp

lemma exact_norm_NaN: "exact_norm (Vector3d NaN b c) = NaN"
  by simp

text \<open>
  Claim C2, as the code has it, for the norm that \<^verbatim>\<open>p.norm()\<close> returns, whatever Eigen
  computes. When neither bound is NaN, the filter returns exactly the input points
  whose norm is NaN or is at least \<open>min_range\<close> and at most \<open>max_range\<close>, in their order
  and with their repetitions; when \<open>min_range\<close> is greater than \<open>max_range\<close>, these are
  the points whose norm is NaN.
\<close>
theorem PreProcessCloud_NaN_or_within_range:
  assumes "min_range \<noteq> NaN" and "max_range \<noteq> NaN"
  shows "PreProcessCloud norm_of points min_range max_range =
           filter (\<lambda>p. norm_of p = NaN \<or> within_range norm_of min_range max_range p) points \<and>
         (dgt min_range max_range \<longrightarrow>
            PreProcessCloud norm_of points min_range max_range =
              filter (\<lambda>p. norm_of p = NaN) points)"
proof -
  have eq: "PreProcessCloud norm_of points min_range max_range =
      filter (\<lambda>p. norm_of p = NaN \<or> within_range norm_of min_range max_range p) points"
    unfolding PreProcessCloud_filter
    by (rule filter_cong [OF refl]) (rule kept_iff [OF assms])
  moreover have "filter (\<lambda>p. norm_of p = NaN \<or> within_range norm_of min_range max_range p) points =
      filter (\<lambda>p. norm_of p = NaN) points" if "dgt min_range max_range"
    using that by (simp add: within_range_empty)
  ultimately show ?thesis by simp
qed

text \<open>
  The scenario of the specification with a point of NaN norm added (norms 0.5, NaN, 2,
  9.5 and 15, on which the norm without rounding is the norm Eigen returns): between
  the bounds 1 and 10, and between the bounds 10 and 1.
\<close>
theorem PreProcessCloud_NaN_or_within_range_witness:
  "PreProcessCloud exact_norm
     [Vector3d (Fin (1/2)) (Fin 0) (Fin 0), Vector3d NaN (Fin 0) (Fin 0),
      Vector3d (Fin 2) (Fin 0) (Fin 0), Vector3d (Fin (19/2)) (Fin 0) (Fin 0),
      Vector3d (Fin 15) (Fin 0) (Fin 0)] (Fin 1) (Fin 10) =
     [Vector3d NaN (Fin 0) (Fin 0), Vector3d (Fin 2) (Fin 0) (Fin 0),
      Vector3d (Fin (19/2)) (Fin 0) (Fin 0)] \<and>
   PreProcessCloud exact_norm
     [Vector3d (Fin (1/2)) (Fin 0) (Fin 0), Vector3d NaN (Fin 0) (Fin 0),
      Vector3d (Fin 2) (Fin 0) (Fin 0), Vector3d (Fin (19/2)) (Fin 0) (Fin 0),
      Vector3d (Fin 15) (Fin 0) (Fin 0)] (Fin 10) (Fin 1) =
     [Vector3d NaN (Fin 0) (Fin 0)]"
  using PreProcessCloud_NaN_or_within_range [of "Fin 1" "Fin 10" exact_norm
      "[Vector3d (Fin (1/2)) (Fin 0) (Fin 0), Vector3d NaN (Fin 0) (Fin 0),
        Vector3d (Fin 2) (Fin 0) (Fin 0), Vector3d (Fin (19/2)) (Fin 0) (Fin 0),
        Vector3d (Fin 15) (Fin 0) (Fin 0)]"]
    PreProcessCloud_NaN_or_within_range [of "Fin 10" "Fin 1" exact_norm
      "[Vector3d (Fin (1/2)) (Fin 0) (Fin 0), Vector3d NaN (Fin 0) (Fin 0),
        Vector3d (Fin 2) (Fin 0) (Fin 0), Vector3d (Fin (19/2)) (Fin 0) (Fin 0),
        Vector3d (Fin 15) (Fin 0) (Fin 0)]"]
  by (simp add: exact_norm_axis exact_norm_NaN within_range_def dgt_def dge_def dle_def
        del: exact_norm.simps)

text \<open>
  A point with a NaN coordinate has a NaN norm, for which neither comparison of the two
  culls is true: the point stays, although its norm is not within the bounds, and it
  stays when \<open>min_range\<close> is greater than \<open>max_range\<close>. And with NaN for \<open>max_range\<close> the
  first cull removes nothing: the point (2, 0, 0), of norm 2, stays, although 2 is not
  at most NaN.
\<close>
theorem PreProcessCloud_keeps_NaN:
  "PreProcessCloud exact_norm [Vector3d NaN (Fin 0) (Fin 0)] (Fin 1) (Fin 10) \<noteq>
     filter (within_range exact_norm (Fin 1) (Fin 10)) [Vector3d NaN (Fin 0) (Fin 0)] \<and>
   PreProcessCloud exact_norm [Vector3d NaN (Fin 0) (Fin 0)] (Fin 10) (Fin 1) \<noteq> [] \<and>
   PreProcessCloud exact_norm [Vector3d (Fin 2) (Fin 0) (Fin 0)] (Fin 1) NaN \<noteq>
     filter (within_range exact_norm (Fin 1) NaN) [Vector3d (Fin 2) (Fin 0) (Fin 0)]"
  by (simp add: PreProcessCloud_def within_range_def dgt_def dge_def dle_def)

text \<open>
  The filter follows the norm that Eigen returns, not the norm of the reals. For the
  point (1, 2^-30, 0) the square 2^-60 is lost in the double sum and \<^verbatim>\<open>norm()\<close> returns
  1: with such a norm the point stays between the bounds 0 and 1, where the norm
  without rounding is above 1 and would have it removed.
\<close>
lemma PreProcessCloud_rounded_norm:
  assumes "norm_of (Vector3d (Fin 1) (Fin (1 / 2 ^ 30)) (Fin 0)) = Fin 1"
  shows "PreProcessCloud norm_of [Vector3d (Fin 1) (Fin (1 / 2 ^ 30)) (Fin 0)] (Fin 0) (Fin 1) =
           [Vector3d (Fin 1) (Fin (1 / 2 ^ 30)) (Fin 0)] \<and>
         PreProcessCloud exact_norm [Vector3d (Fin 1) (Fin (1 / 2 ^ 30)) (Fin 0)] (Fin 0) (Fin 1) = []"
proof -
  have "1 < sqrt (1 + (1 / 2 ^ 30) * (1 / 2 ^ 30) :: real)"
    by (rule real_less_rsqrt) simp
  then show ?thesis
    using assms by (simp add: PreProcessCloud_def dgt_def)
qed

section \<open>Ingestion\<close>

lemma foldl_emplace_back: "foldl (\<lambda>acc x. acc @ [f x]) acc0 xs = acc0 @ map f xs"
  by (induction xs arbitrary: acc0) simp_all

lemma pcl2SensorMsgToEigen_map:
  "pcl2SensorMsgToEigen pcl2 = map (\<lambda>point. Vector3d (p32_x point) (p32_y point) (p32_z point)) (pc2_points pcl2)"
  by (simp add: pcl2SensorMsgToEigen_def convertPointCloud2ToPointCloud_def foldl_emplace_back)

lemma pcl2SensorMsgToEigen_default: "pcl2SensorMsgToEigen PointCloud2_default = []"
  by (simp add: pcl2SensorMsgToEigen_map PointCloud2_default_def)

lemma PreProcessCloud_Nil: "PreProcessCloud norm_of [] min_range max_range = []"
  by (simp add: PreProcessCloud_def)

text \<open>
  Claim C1. When \<open>lookUpTransform\<close> answers false for the stamp of the scan, \<open>Integrate\<close>
  leaves the volume as it was, whatever the volume's own \<open>Integrate\<close> would do, and its
  trace is empty: no log line, no call. Only the transform buffer may have changed, by
  the lookup itself.
\<close>
theorem Integrate_without_transform:
  assumes "\<not> fst (lookUpTransform ext (tf_m node) (stamp (pc2_header pcd))
                   (timestamp_tolerance_m node) TransformStamped_default)"
  shows "vdb_volume_m (fst (Integrate ext node pcd)) = vdb_volume_m node \<and>
         snd (Integrate ext node pcd) = [] \<and>
         fst (Integrate ext node pcd) =
           node\<lparr>tf_m := snd (snd (lookUpTransform ext (tf_m node) (stamp (pc2_header pcd))
                                   (timestamp_tolerance_m node) TransformStamped_default))\<rparr>"
proof -
  obtain found transform tf' where look:
    "lookUpTransform ext (tf_m node) (stamp (pc2_header pcd)) (timestamp_tolerance_m node)
       TransformStamped_default = (found, transform, tf')"
    by (cases "lookUpTransform ext (tf_m node) (stamp (pc2_header pcd))
                 (timestamp_tolerance_m node) TransformStamped_default")
  with assms have "\<not> found" by simp
  then have "Integrate ext node pcd = (node\<lparr>tf_m := tf'\<rparr>, [])"
    by (simp add: Integrate_def look)
  then show ?thesis by (simp add: look)
qed

text \<open>
  A scan stamped 500 finds no pose within 10 of it in the buffer, and the recording
  volume has recorded no batch afterwards.
\<close>
theorem Integrate_without_transform_witness:
  "vdb_volume_m (fst (Integrate recording_ext sample_node (scan_at 500))) = [] \<and>
   snd (Integrate recording_ext sample_node (scan_at 500)) = ([] :: recording event list)"
  using Integrate_without_transform [of recording_ext sample_node "scan_at 500"]
  by (simp add: recording_ext_def sample_node_def scan_at_def buffer_lookUp_def)

text \<open>With a transform, the volume's \<open>Integrate\<close> is called once, on the points of \<open>pcd_out\<close>.\<close>
lemma Integrate_with_transform:
  assumes "lookUpTransform ext (tf_m node) (stamp (pc2_header pcd)) (timestamp_tolerance_m node)
             TransformStamped_default = (True, transform, tf')"
  shows "Integrate ext node pcd =
     (node\<lparr>tf_m := tf',
           vdb_volume_m :=
             VDBVolume_Integrate ext (vdb_volume_m node)
               ((if preprocess_m node
                 then (\<lambda>scan. PreProcessCloud (Vector3d_norm ext) scan
                                 (min_range_m node) (max_range_m node))
                 else (\<lambda>scan. scan))
                  (pcl2SensorMsgToEigen
                     (if apply_pose_m node then doTransform ext pcd transform
                      else PointCloud2_default)))
               (Vector3d (v3_x (translation (ts_transform transform)))
                         (v3_y (translation (ts_transform transform)))
                         (v3_z (translation (ts_transform transform))))
               (\<lambda>_. Fin 1)\<rparr>,
      [ROS_INFO ''Transform available''])"
  by (simp add: Integrate_def assms Let_def)

text \<open>
  With \<open>apply_pose_\<close> set, the batch is the transformed scan: the recording volume holds
  the three points of the scan stamped 100, shifted by the pose.
\<close>
lemma Integrate_with_transform_sample:
  "vdb_volume_m (fst (Integrate recording_ext sample_node (scan_at 100))) =
     [([Vector3d (Fin 5) (Fin 2) (Fin 3), Vector3d (Fin 1) (Fin 7) (Fin 3),
        Vector3d (Fin 1) (Fin 2) (Fin 9)], Vector3d (Fin 1) (Fin 2) (Fin 3))]"
  by (simp add: Integrate_def recording_ext_def sample_node_def scan_at_def buffer_lookUp_def
        pose_at_100_def shift_cloud_def pcl2SensorMsgToEigen_map)

text \<open>
  With \<open>apply_pose_\<close> cleared, \<open>pcd_out\<close> is still the default-constructed message when
  the scan is read from it: the batch is empty, and the points of the scan that arrived
  have no influence on what \<open>Integrate\<close> does.
\<close>
lemma Integrate_apply_pose_off:
  assumes "\<not> apply_pose_m node"
    and "lookUpTransform ext (tf_m node) (stamp (pc2_header pcd)) (timestamp_tolerance_m node)
             TransformStamped_default = (True, transform, tf')"
  shows "vdb_volume_m (fst (Integrate ext node pcd)) =
     VDBVolume_Integrate ext (vdb_volume_m node) []
       (Vector3d (v3_x (translation (ts_transform transform)))
                 (v3_y (translation (ts_transform transform)))
                 (v3_z (translation (ts_transform transform))))
       (\<lambda>_. Fin 1)"
  using assms(1)
  by (simp add: Integrate_with_transform [OF assms(2)] pcl2SensorMsgToEigen_default
        PreProcessCloud_Nil)

lemma Integrate_apply_pose_off_any_points:
  assumes "\<not> apply_pose_m node"
  shows "Integrate ext node (pcd\<lparr>pc2_points := points\<rparr>) = Integrate ext node pcd"
  using assms by (simp add: Integrate_def Let_def split: prod.splits)

text \<open>
  Claim C4, evaluated. The scan stamped 100 has the three points (4, 0, 0), (0, 5, 0) and
  (0, 0, 6) and its pose is in the buffer; with \<open>apply_pose_\<close> cleared, the batch that
  the volume's \<open>Integrate\<close> receives is empty.
\<close>
theorem Integrate_apply_pose_off_sample:
  "pcl2SensorMsgToEigen (scan_at 100) =
     [Vector3d (Fin 4) (Fin 0) (Fin 0), Vector3d (Fin 0) (Fin 5) (Fin 0),
      Vector3d (Fin 0) (Fin 0) (Fin 6)] \<and>
   vdb_volume_m (fst (Integrate recording_ext (sample_node\<lparr>apply_pose_m := False\<rparr>) (scan_at 100))) =
     [([], Vector3d (Fin 1) (Fin 2) (Fin 3))]"
  by (simp add: Integrate_def recording_ext_def sample_node_def scan_at_def buffer_lookUp_def
        pose_at_100_def pcl2SensorMsgToEigen_map PointCloud2_default_def)

section \<open>Export\<close>

text \<open>Assigning row \<open>k\<close> of a matrix whose first \<open>k\<close> rows are already assigned.\<close>
lemma assign_row:
  assumes "k < length rows" "length done = k"
  shows "(done @ drop k rows)[k := r] = (done @ [r]) @ drop (Suc k) rows"
proof -
  have "drop k rows = rows ! k # drop (Suc k) rows"
    using assms(1) by (simp add: Cons_nth_drop_Suc)
  then show ?thesis
    using assms(2) by (simp add: list_update_append)
qed

text \<open>
  The invariant of the loop over the vertices: after \<open>k\<close> rounds the first \<open>k\<close> rows of
  \<open>V\<close> and \<open>k\<close> more points of the message are those of the first \<open>k\<close> vertices.
\<close>
lemma vertices_loop_upto:
  assumes "length V = length vertices"
  shows "k \<le> length vertices \<Longrightarrow>
   foldl (vertices_body vertices) (V, mesh_msg) [0..<k] =
     (vertex_rows (take k vertices) @ drop k V,
      mesh_msg\<lparr>mesh_geometry := (mesh_geometry mesh_msg)
         \<lparr>mg_vertices := mg_vertices (mesh_geometry mesh_msg) @ vertex_points (take k vertices)\<rparr>\<rparr>)"
proof (induction k)
  case 0
  then show ?case by (simp add: vertex_rows_def vertex_points_def)
next
  case (Suc k)
  then have k: "k < length vertices" "k < length V" using assms by simp_all
  have len: "length (vertex_rows (take k vertices)) = k"
    using k by (simp add: vertex_rows_def)
  have "foldl (vertices_body vertices) (V, mesh_msg) [0..<Suc k] =
        vertices_body vertices (foldl (vertices_body vertices) (V, mesh_msg) [0..<k]) k"
    by simp
  also have "\<dots> = vertices_body vertices
        (vertex_rows (take k vertices) @ drop k V,
         mesh_msg\<lparr>mesh_geometry := (mesh_geometry mesh_msg)
           \<lparr>mg_vertices := mg_vertices (mesh_geometry mesh_msg) @ vertex_points (take k vertices)\<rparr>\<rparr>) k"
    using Suc by simp
  also have "\<dots> =
     (vertex_rows (take (Suc k) vertices) @ drop (Suc k) V,
      mesh_msg\<lparr>mesh_geometry := (mesh_geometry mesh_msg)
         \<lparr>mg_vertices := mg_vertices (mesh_geometry mesh_msg) @ vertex_points (take (Suc k) vertices)\<rparr>\<rparr>)"
    using k
    by (simp add: vertices_body_def assign_row [OF k(2) len] take_Suc_conv_app_nth)
       (simp add: vertex_rows_def vertex_points_def)
  finally show ?case .
qed

lemma vertices_loop:
  "foldl (vertices_body vertices) (MatrixXd (length vertices) 3, mesh_msg) [0..<length vertices] =
     (vertex_rows vertices,
      mesh_msg\<lparr>mesh_geometry := (mesh_geometry mesh_msg)
         \<lparr>mg_vertices := mg_vertices (mesh_geometry mesh_msg) @ vertex_points vertices\<rparr>\<rparr>)"
  using vertices_loop_upto [of "MatrixXd (length vertices) 3" vertices "length vertices" mesh_msg]
  by (simp add: MatrixXd_def)

lemma triangles_loop_upto:
  assumes "length F = length triangles"
  shows "k \<le> length triangles \<Longrightarrow>
   foldl (triangles_body triangles) (F, mesh_msg) [0..<k] =
     (triangle_rows (take k triangles) @ drop k F,
      mesh_msg\<lparr>mesh_geometry := (mesh_geometry mesh_msg)
         \<lparr>mg_faces := mg_faces (mesh_geometry mesh_msg) @ triangle_indices (take k triangles)\<rparr>\<rparr>)"
proof (induction k)
  case 0
  then show ?case by (simp add: triangle_rows_def triangle_indices_def)
next
  case (Suc k)
  then have k: "k < length triangles" "k < length F" using assms by simp_all
  have len: "length (triangle_rows (take k triangles)) = k"
    using k by (simp add: triangle_rows_def)
  have "foldl (triangles_body triangles) (F, mesh_msg) [0..<Suc k] =
        triangles_body triangles (foldl (triangles_body triangles) (F, mesh_msg) [0..<k]) k"
    by simp
  also have "\<dots> = triangles_body triangles
        (triangle_rows (take k triangles) @ drop k F,
         mesh_msg\<lparr>mesh_geometry := (mesh_geometry mesh_msg)
           \<lparr>mg_faces := mg_faces (mesh_geometry mesh_msg) @ triangle_indices (take k triangles)\<rparr>\<rparr>) k"
    using Suc by simp
  also have "\<dots> =
     (triangle_rows (take (Suc k) triangles) @ drop (Suc k) F,
      mesh_msg\<lparr>mesh_geometry := (mesh_geometry mesh_msg)
         \<lparr>mg_faces := mg_faces (mesh_geometry mesh_msg) @ triangle_indices (take (Suc k) triangles)\<rparr>\<rparr>)"
    using k
    by (simp add: triangles_body_def assign_row [OF k(2) len] take_Suc_conv_app_nth
          MeshTriangleIndices_default_def)
       (simp add: triangle_rows_def triangle_indices_def)
  finally show ?case .
qed

lemma triangles_loop:
  "foldl (triangles_body triangles) (MatrixXi (length triangles) 3, mesh_msg) [0..<length triangles] =
     (triangle_rows triangles,
      mesh_msg\<lparr>mesh_geometry := (mesh_geometry mesh_msg)
         \<lparr>mg_faces := mg_faces (mesh_geometry mesh_msg) @ triangle_indices triangles\<rparr>\<rparr>)"
  using triangles_loop_upto [of "MatrixXi (length triangles) 3" triangles "length triangles" mesh_msg]
  by (simp add: MatrixXi_def)

text \<open>The whole of \<open>saveVDBVolume\<close>: its result, the node after it and its trace.\<close>
lemma saveVDBVolume_closed:
  "saveVDBVolume ext node req out =
     (True,
      node\<lparr>vdb_volume_m :=
        snd (ExtractTriangleMesh ext (vdb_volume_m node) (fill_holes_m node) (min_weight_m node))\<rparr>,
      [ROS_INFO ''Saving the mesh and VDB grid files ...'',
       openvdb_File_write (req_path req @ ''_grid.vdb'') [tsdf ext (vdb_volume_m node)],
       igl_write_triangle_mesh (req_path req @ ''_mesh.ply'')
         (vertex_rows (fst (extracted_mesh ext node)))
         (triangle_rows (snd (extracted_mesh ext node)))
         Binary,
       ROS_INFO ''Done saving the mesh and VDB grid files''] @
      (if 0 < length (fst (extracted_mesh ext node))
       then [ROS_INFO ''Publishing mesh geometry'',
             publish
               \<lparr>mesh_header = \<lparr>stamp = Time_now out, frame_id = ''map''\<rparr>,
                uuid = ''uuid'',
                mesh_geometry =
                  \<lparr>mg_vertices = vertex_points (fst (extracted_mesh ext node)),
                   mg_vertex_normals = [],
                   mg_faces = triangle_indices (snd (extracted_mesh ext node))\<rparr>\<rparr>]
       else []))"
proof -
  obtain vertices triangles volume' where mesh:
    "ExtractTriangleMesh ext (vdb_volume_m node) (fill_holes_m node) (min_weight_m node) =
       ((vertices, triangles), volume')"
    by (metis prod.exhaust)
  show ?thesis
    unfolding saveVDBVolume_def extracted_mesh_def mesh
    by (simp add: vertices_loop triangles_loop MeshGeometryStamped_default_def
          Header_default_def Let_def)
qed

text \<open>The trace of \<open>saveVDBVolume\<close> alone.\<close>
lemma saveVDBVolume_events:
  "snd (snd (saveVDBVolume ext node req out)) =
     [ROS_INFO ''Saving the mesh and VDB grid files ...'',
      openvdb_File_write (req_path req @ ''_grid.vdb'') [tsdf ext (vdb_volume_m node)],
      igl_write_triangle_mesh (req_path req @ ''_mesh.ply'')
        (vertex_rows (fst (extracted_mesh ext node)))
        (triangle_rows (snd (extracted_mesh ext node)))
        Binary,
      ROS_INFO ''Done saving the mesh and VDB grid files''] @
     (if 0 < length (fst (extracted_mesh ext node))
      then [ROS_INFO ''Publishing mesh geometry'',
            publish
              \<lparr>mesh_header = \<lparr>stamp = Time_now out, frame_id = ''map''\<rparr>,
               uuid = ''uuid'',
               mesh_geometry =
                 \<lparr>mg_vertices = vertex_points (fst (extracted_mesh ext node)),
                  mg_vertex_normals = [],
                  mg_faces = triangle_indices (snd (extracted_mesh ext node))\<rparr>\<rparr>]
      else [])"
  by (simp add: saveVDBVolume_closed)

text \<open>The handler changes no member but, through the extraction, the volume.\<close>
lemma saveVDBVolume_node:
  "fst (snd (saveVDBVolume ext node req out)) =
     node\<lparr>vdb_volume_m :=
       snd (ExtractTriangleMesh ext (vdb_volume_m node) (fill_holes_m node) (min_weight_m node))\<rparr>"
  by (simp add: saveVDBVolume_closed)

text \<open>
  Claim C3, as the code has it. \<open>saveVDBVolume\<close> returns true in every case, after the
  volume file and the mesh file have been handed to their writers and the message has
  been published when there is a vertex; what \<^verbatim>\<open>igl::write_triangle_mesh\<close> returned
  changes neither the result nor the trace.
\<close>
theorem saveVDBVolume_always_true:
  "fst (saveVDBVolume ext node req out) \<and>
   saveVDBVolume ext node req (out\<lparr>write_triangle_mesh_result := written\<rparr>) =
     saveVDBVolume ext node req out \<and>
   (\<exists>V F. file_writes (snd (snd (saveVDBVolume ext node req out))) =
      [openvdb_File_write (req_path req @ ''_grid.vdb'') [tsdf ext (vdb_volume_m node)],
       igl_write_triangle_mesh (req_path req @ ''_mesh.ply'') V F Binary]) \<and>
   length (published (snd (snd (saveVDBVolume ext node req out)))) =
     (if 0 < length (fst (extracted_mesh ext node)) then 1 else 0)"
  by (simp add: saveVDBVolume_closed)

text \<open>The mesh file could not be written, and the export returns true.\<close>
theorem saveVDBVolume_failed_write_returns_true:
  "\<not> write_triangle_mesh_result (sample_out False) \<and>
   fst (saveVDBVolume recording_ext sample_node \<lparr>req_path = ''/tmp/vol''\<rparr> (sample_out False))"
  by (simp add: saveVDBVolume_closed sample_out_def)

text \<open>
  Claim C5. An export publishes one message when the extracted mesh has a vertex and
  none otherwise; the message holds a point for every vertex and a triple of indices
  for every triangle of the mesh, in the order of the mesh.
\<close>
theorem saveVDBVolume_publishes:
  "published (snd (snd (saveVDBVolume ext node req out))) =
     (if 0 < length (fst (extracted_mesh ext node))
      then [\<lparr>mesh_header = \<lparr>stamp = Time_now out, frame_id = ''map''\<rparr>,
             uuid = ''uuid'',
             mesh_geometry =
               \<lparr>mg_vertices = vertex_points (fst (extracted_mesh ext node)),
                mg_vertex_normals = [],
                mg_faces = triangle_indices (snd (extracted_mesh ext node))\<rparr>\<rparr>]
      else [])"
  by (simp add: saveVDBVolume_closed)

text \<open>
  After the scan stamped 100 has been integrated, an export publishes one message with
  its three vertices and the triangle over them; the node that has integrated nothing
  publishes no message.
\<close>
theorem saveVDBVolume_publishes_witness:
  "published (snd (snd (saveVDBVolume recording_ext
      (fst (Integrate recording_ext sample_node (scan_at 100)))
      \<lparr>req_path = ''/tmp/vol''\<rparr> (sample_out True)))) =
     [\<lparr>mesh_header = \<lparr>stamp = 123, frame_id = ''map''\<rparr>, uuid = ''uuid'',
       mesh_geometry =
         \<lparr>mg_vertices = [Point (Fin 5) (Fin 2) (Fin 3), Point (Fin 1) (Fin 7) (Fin 3),
                         Point (Fin 1) (Fin 2) (Fin 9)],
          mg_vertex_normals = [],
          mg_faces = [\<lparr>vertex_indices = [0, 1, 2]\<rparr>]\<rparr>\<rparr>] \<and>
   published (snd (snd (saveVDBVolume recording_ext sample_node
      \<lparr>req_path = ''/tmp/vol''\<rparr> (sample_out True)))) = []"
  using saveVDBVolume_publishes [of recording_ext
      "fst (Integrate recording_ext sample_node (scan_at 100))" "\<lparr>req_path = ''/tmp/vol''\<rparr>"
      "sample_out True"]
    saveVDBVolume_publishes [of recording_ext sample_node "\<lparr>req_path = ''/tmp/vol''\<rparr>"
      "sample_out True"]
  by (simp add: extracted_mesh_def Integrate_def recording_ext_def sample_node_def scan_at_def
        buffer_lookUp_def pose_at_100_def shift_cloud_def pcl2SensorMsgToEigen_map
        recorded_mesh_def vertex_points_def triangle_indices_def sample_out_def)

text \<open>
  Claim C6, as the code has it. An export to the path \<open>D\<close> calls the two writers, first
  OpenVDB's on \<open>D_grid.vdb\<close> with the grid of the volume, then libigl's on \<open>D_mesh.ply\<close>
  with the mesh, whether the mesh has a vertex or not. Both files are there afterwards
  when libigl's writer returned true, and the volume file alone when it returned false.
\<close>
theorem saveVDBVolume_file_writes:
  "file_writes (snd (snd (saveVDBVolume ext node req out))) =
     [openvdb_File_write (req_path req @ ''_grid.vdb'') [tsdf ext (vdb_volume_m node)],
      igl_write_triangle_mesh (req_path req @ ''_mesh.ply'')
        (vertex_rows (fst (extracted_mesh ext node)))
        (triangle_rows (snd (extracted_mesh ext node))) Binary] \<and>
   files_written out (snd (snd (saveVDBVolume ext node req out))) =
     (if write_triangle_mesh_result out
      then [req_path req @ ''_grid.vdb'', req_path req @ ''_mesh.ply'']
      else [req_path req @ ''_grid.vdb''])"
  by (simp add: saveVDBVolume_closed)

text \<open>
  The node that has integrated nothing extracts an empty mesh; both writers are called,
  and with a mesh writer that succeeds both files are there.
\<close>
theorem saveVDBVolume_file_writes_witness:
  "fst (extracted_mesh recording_ext sample_node) = [] \<and>
   file_writes (snd (snd (saveVDBVolume recording_ext sample_node
      \<lparr>req_path = ''/tmp/vol''\<rparr> (sample_out True)))) =
     [openvdb_File_write ''/tmp/vol_grid.vdb'' [[]],
      igl_write_triangle_mesh ''/tmp/vol_mesh.ply'' [] [] Binary] \<and>
   files_written (sample_out True) (snd (snd (saveVDBVolume recording_ext sample_node
      \<lparr>req_path = ''/tmp/vol''\<rparr> (sample_out True)))) =
     [''/tmp/vol_grid.vdb'', ''/tmp/vol_mesh.ply'']"
  using saveVDBVolume_file_writes [of recording_ext sample_node "\<lparr>req_path = ''/tmp/vol''\<rparr>"
      "sample_out True"]
  by (simp add: extracted_mesh_def recording_ext_def sample_node_def recorded_mesh_def
        vertex_rows_def triangle_rows_def sample_out_def)

text \<open>
  The mesh writer returns false: the export has returned, and of the two files only the
  volume file is there.
\<close>
theorem saveVDBVolume_mesh_file_missing:
  "files_written (sample_out False) (snd (snd (saveVDBVolume recording_ext sample_node
      \<lparr>req_path = ''/tmp/vol''\<rparr> (sample_out False)))) = [''/tmp/vol_grid.vdb'']"
  by (simp add: saveVDBVolume_closed sample_out_def)

section \<open>The callback queue\<close>

text \<open>Reading a trace distributes over the concatenation of traces.\<close>
lemma published_append: "published (events1 @ events2) = published events1 @ published events2"
  by (induction events1 rule: published.induct) simp_all

lemma file_writes_append: "file_writes (events1 @ events2) = file_writes events1 @ file_writes events2"
  by (induction events1 rule: file_writes.induct) simp_all

lemma meshes_written_append:
  "meshes_written (events1 @ events2) = meshes_written events1 @ meshes_written events2"
  by (induction events1 rule: meshes_written.induct) simp_all

lemma timers_created_append:
  "timers_created (events1 @ events2) = timers_created events1 @ timers_created events2"
  by (induction events1 rule: timers_created.induct) simp_all

text \<open>One callback after the other: the node and the trace of a run, by its first callback.\<close>
lemma fst_spin_Cons:
  "fst (spin ext node ((trig, out) # pending)) =
     fst (spin ext (fst (callback ext node trig out)) pending)"
  by (simp split: prod.splits)

lemma snd_spin_Cons:
  "snd (spin ext node ((trig, out) # pending)) =
     snd (callback ext node trig out) @ snd (spin ext (fst (callback ext node trig out)) pending)"
  by (simp split: prod.splits)

text \<open>What \<open>Integrate\<close> can leave in the trace, and that it does not touch the timer.\<close>
lemma Integrate_events:
  "snd (Integrate ext node pcd) = [] \<or> snd (Integrate ext node pcd) = [ROS_INFO ''Transform available'']"
  by (simp add: Integrate_def Let_def split: prod.splits)

lemma Integrate_published: "published (snd (Integrate ext node pcd)) = []"
  using Integrate_events [of ext node pcd] by auto

lemma Integrate_serviceTimer: "serviceTimer (fst (Integrate ext node pcd)) = serviceTimer node"
  by (simp add: Integrate_def Let_def split: prod.splits)

section \<open>The periodic export\<close>

text \<open>\<open>TimerCallback\<close> runs the handler of the service on the member \<open>save_path_\<close>.\<close>
lemma TimerCallback_saveVDBVolume:
  "TimerCallback ext node out =
     (fst (snd (saveVDBVolume ext node \<lparr>req_path = save_path_m node\<rparr> out)),
      ROS_INFO ''Auto invoking service call with save path %s'' #
      snd (snd (saveVDBVolume ext node \<lparr>req_path = save_path_m node\<rparr> out)))"
  by (simp add: TimerCallback_def split: prod.splits)

text \<open>
  The constructor creates the timer exactly when the value that \<open>save_publish_wait_time\<close>
  holds after \<^verbatim>\<open>getParam\<close> is greater than zero; a NaN is not.
\<close>
lemma VDBVolumeNode_serviceTimer:
  "serviceTimer (fst (VDBVolumeNode ext params mem)) =
     (if dgt (getParam (param_save_publish_wait_time params) (init_save_publish_wait_time mem)) (Fin 0)
      then Some (getParam (param_save_publish_wait_time params) (init_save_publish_wait_time mem))
      else None)"
  by (simp add: VDBVolumeNode_def Let_def)

lemma VDBVolumeNode_timers_created:
  "timers_created (snd (VDBVolumeNode ext params mem)) =
     (if dgt (getParam (param_save_publish_wait_time params) (init_save_publish_wait_time mem)) (Fin 0)
      then [getParam (param_save_publish_wait_time params) (init_save_publish_wait_time mem)]
      else [])"
  by (simp add: VDBVolumeNode_def Let_def)

lemma VDBVolumeNode_armed_iff:
  "serviceTimer (fst (VDBVolumeNode ext params mem)) \<noteq> None \<longleftrightarrow>
     dgt (save_publish_wait_time (fst (VDBVolumeNode ext params mem))) (Fin 0)"
  by (simp add: VDBVolumeNode_def Let_def)

text \<open>No callback creates, replaces or stops the timer: it is as the constructor left it.\<close>
lemma callback_serviceTimer: "serviceTimer (fst (callback ext node trig out)) = serviceTimer node"
  by (cases trig)
     (simp_all add: callback_def Integrate_serviceTimer TimerCallback_saveVDBVolume
        saveVDBVolume_node split: option.splits)

lemma spin_serviceTimer: "serviceTimer (fst (spin ext node pending)) = serviceTimer node"
proof (induction pending arbitrary: node)
  case Nil
  show ?case by simp
next
  case (Cons item pending)
  obtain trig out where nxt: "item = (trig, out)" by (cases item)
  show ?case
    unfolding nxt fst_spin_Cons
    by (simp add: Cons.IH callback_serviceTimer)
qed

lemma callback_timers_created: "timers_created (snd (callback ext node trig out)) = []"
proof (cases trig)
  case (PointCloudMsg pcd)
  then show ?thesis
    using Integrate_events [of ext node pcd] by (auto simp: callback_def)
next
  case (ServiceCall req)
  then show ?thesis by (simp add: callback_def saveVDBVolume_events)
next
  case TimerEvent
  then show ?thesis
    by (simp add: callback_def TimerCallback_saveVDBVolume saveVDBVolume_events split: option.splits)
qed

lemma spin_timers_created: "timers_created (snd (spin ext node pending)) = []"
proof (induction pending arbitrary: node)
  case Nil
  show ?case by simp
next
  case (Cons item pending)
  obtain trig out where nxt: "item = (trig, out)" by (cases item)
  show ?case
    unfolding nxt snd_spin_Cons
    by (simp add: Cons.IH callback_timers_created timers_created_append)
qed

text \<open>
  Without a timer, a run is the run of its messages and service calls alone; with one,
  an expiry does what a call of the service with the path \<open>save_path_\<close> does, after one
  more log line.
\<close>
lemma callback_TimerEvent_manual_only:
  "serviceTimer node = None \<Longrightarrow> callback ext node TimerEvent out = (node, [])"
  by (simp add: callback_def)

lemma spin_manual_only:
  assumes "serviceTimer node = None"
  shows "spin ext node pending = spin ext node (filter (\<lambda>item. fst item \<noteq> TimerEvent) pending)"
  using assms
proof (induction pending arbitrary: node)
  case Nil
  show ?case by simp
next
  case (Cons item pending)
  obtain trig out where nxt: "item = (trig, out)" by (cases item)
  show ?case
  proof (cases "trig = TimerEvent")
    case True
    with Cons show ?thesis
      by (simp add: nxt callback_TimerEvent_manual_only)
  next
    case False
    obtain node1 events1 where cb: "callback ext node trig out = (node1, events1)"
      by (cases "callback ext node trig out")
    have "serviceTimer node1 = None"
      using callback_serviceTimer [of ext node trig out] Cons.prems by (simp add: cb)
    from Cons.IH [OF this] False show ?thesis
      by (simp add: nxt cb)
  qed
qed

lemma callback_TimerEvent_armed:
  "serviceTimer node = Some period \<Longrightarrow>
   callback ext node TimerEvent out =
     (fst (callback ext node (ServiceCall \<lparr>req_path = save_path_m node\<rparr>) out),
      ROS_INFO ''Auto invoking service call with save path %s'' #
      snd (callback ext node (ServiceCall \<lparr>req_path = save_path_m node\<rparr>) out))"
  by (simp add: callback_def TimerCallback_saveVDBVolume)

text \<open>
  Claim C7, evaluated where the parameter \<^verbatim>\<open>/save_publish_wait_time\<close> is not set.
  \<^verbatim>\<open>getParam\<close> leaves the member as it was, and the member has no initialiser: when it
  happens to hold 5.0, the constructor creates the timer, and the first expiry exports
  to the default path.
\<close>
theorem VDBVolumeNode_interval_unset_sample:
  "param_save_publish_wait_time (sample_params\<lparr>param_save_publish_wait_time := None\<rparr>) = None \<and>
   serviceTimer (fst (VDBVolumeNode recording_ext
       (sample_params\<lparr>param_save_publish_wait_time := None\<rparr>) sample_mem)) = Some (Fin 5) \<and>
   file_writes (snd (main recording_ext
       (sample_params\<lparr>param_save_publish_wait_time := None\<rparr>) sample_mem
       [(TimerEvent, sample_out True)])) =
     [openvdb_File_write ''/tmp/vol_grid.vdb'' [[]],
      igl_write_triangle_mesh ''/tmp/vol_mesh.ply'' [] [] Binary]"
  by (simp add: main_def VDBVolumeNode_def Let_def sample_params_def sample_mem_def getParam_def
        callback_def TimerCallback_saveVDBVolume saveVDBVolume_closed InitVDBVolume_def dgt_def
        extracted_mesh_def recording_ext_def recorded_mesh_def vertex_rows_def triangle_rows_def)

section \<open>Two exports in a row\<close>

text \<open>
  Claim C8. With an extraction that only reads the volume, two calls of the service
  with the same path, one right after the other, leave the node as it was, write the
  same two matrices to the mesh file both times and, when the mesh has a vertex,
  publish the same geometry both times, whatever the clock and the file system answer
  in between.
\<close>
theorem export_twice_same_mesh:
  assumes "extraction_reads_snapshot ext"
  shows
  "fst (spin ext node [(ServiceCall req, out1), (ServiceCall req, out2)]) = node \<and>
   meshes_written (snd (spin ext node [(ServiceCall req, out1), (ServiceCall req, out2)])) =
     [(vertex_rows (fst (extracted_mesh ext node)), triangle_rows (snd (extracted_mesh ext node))),
      (vertex_rows (fst (extracted_mesh ext node)), triangle_rows (snd (extracted_mesh ext node)))] \<and>
   map mesh_geometry (published (snd (spin ext node [(ServiceCall req, out1), (ServiceCall req, out2)]))) =
     (if 0 < length (fst (extracted_mesh ext node))
      then [\<lparr>mg_vertices = vertex_points (fst (extracted_mesh ext node)),
             mg_vertex_normals = [],
             mg_faces = triangle_indices (snd (extracted_mesh ext node))\<rparr>,
            \<lparr>mg_vertices = vertex_points (fst (extracted_mesh ext node)),
             mg_vertex_normals = [],
             mg_faces = triangle_indices (snd (extracted_mesh ext node))\<rparr>]
      else [])"
proof -
  have "snd (ExtractTriangleMesh ext (vdb_volume_m node) (fill_holes_m node) (min_weight_m node)) =
        vdb_volume_m node"
    using assms by (simp add: extraction_reads_snapshot_def)
  then have same: "fst (snd (saveVDBVolume ext node req out)) = node" for out
    by (simp add: saveVDBVolume_node)
  have first: "callback ext node (ServiceCall req) out =
      (node, snd (snd (saveVDBVolume ext node req out)))" for out
    using same [of out] by (simp add: callback_def prod_eq_iff)
  show ?thesis
    by (simp add: first saveVDBVolume_events)
qed

text \<open>
  The recording volume is left as it is by its extraction; after the scan stamped 100
  has been integrated, both exports write its three vertices.
\<close>
theorem export_twice_same_mesh_witness:
  "extraction_reads_snapshot recording_ext \<and>
   meshes_written (snd (spin recording_ext (fst (Integrate recording_ext sample_node (scan_at 100)))
      [(ServiceCall \<lparr>req_path = ''/tmp/vol''\<rparr>, sample_out True),
       (ServiceCall \<lparr>req_path = ''/tmp/vol''\<rparr>, sample_out False)])) =
     [([[Fin 5, Fin 2, Fin 3], [Fin 1, Fin 7, Fin 3], [Fin 1, Fin 2, Fin 9]], [[0, 1, 2]]),
      ([[Fin 5, Fin 2, Fin 3], [Fin 1, Fin 7, Fin 3], [Fin 1, Fin 2, Fin 9]], [[0, 1, 2]])]"
proof -
  have reads: "extraction_reads_snapshot recording_ext"
    by (simp add: extraction_reads_snapshot_def recording_ext_def recorded_mesh_def)
  from export_twice_same_mesh [OF reads, of
      "fst (Integrate recording_ext sample_node (scan_at 100))" "\<lparr>req_path = ''/tmp/vol''\<rparr>"
      "sample_out True" "sample_out False"] reads
  show ?thesis
    by (simp add: extracted_mesh_def Integrate_def recording_ext_def sample_node_def scan_at_def
          buffer_lookUp_def pose_at_100_def shift_cloud_def pcl2SensorMsgToEigen_map
          recorded_mesh_def vertex_rows_def triangle_rows_def)
qed

section \<open>The fields of a published message\<close>

lemma saveVDBVolume_published_fields:
  "mesh_msg \<in> set (published (snd (snd (saveVDBVolume ext node req out)))) \<Longrightarrow>
   uuid mesh_msg = ''uuid'' \<and> frame_id (mesh_header mesh_msg) = ''map''"
  by (simp add: saveVDBVolume_events split: if_splits)

lemma callback_published_fields:
  assumes "mesh_msg \<in> set (published (snd (callback ext node trig out)))"
  shows "uuid mesh_msg = ''uuid'' \<and> frame_id (mesh_header mesh_msg) = ''map''"
proof (cases trig)
  case (PointCloudMsg pcd)
  with assms show ?thesis by (simp add: callback_def Integrate_published)
next
  case (ServiceCall req)
  with assms show ?thesis
    using saveVDBVolume_published_fields [of mesh_msg ext node req out] by (simp add: callback_def)
next
  case TimerEvent
  with assms show ?thesis
    using saveVDBVolume_published_fields [of mesh_msg ext node "\<lparr>req_path = save_path_m node\<rparr>" out]
    by (simp add: callback_def TimerCallback_saveVDBVolume split: option.splits)
qed

lemma spin_published_fields:
  "mesh_msg \<in> set (published (snd (spin ext node pending))) \<Longrightarrow>
   uuid mesh_msg = ''uuid'' \<and> frame_id (mesh_header mesh_msg) = ''map''"
proof (induction pending arbitrary: node)
  case Nil
  then show ?case by simp
next
  case (Cons item pending)
  obtain trig out where nxt: "item = (trig, out)" by (cases item)
  from Cons.prems have
    "mesh_msg \<in> set (published (snd (callback ext node trig out))) \<or>
     mesh_msg \<in> set (published (snd (spin ext (fst (callback ext node trig out)) pending)))"
    unfolding nxt snd_spin_Cons by (simp add: published_append)
  then show ?case
    using callback_published_fields Cons.IH by blast
qed

lemma VDBVolumeNode_published: "published (snd (VDBVolumeNode ext params mem)) = []"
  by (simp add: VDBVolumeNode_def Let_def)

lemma snd_main:
  "snd (main ext params mem pending) =
     snd (VDBVolumeNode ext params mem) @ snd (spin ext (fst (VDBVolumeNode ext params mem)) pending)"
  by (simp add: main_def split: prod.splits)

text \<open>
  Claim C10. In every run of the node, from any configuration and through any sequence
  of scans, service calls and timer expiries, each message published on the mesh topic
  has the identifier \<open>uuid\<close> and the frame \<open>map\<close>.
\<close>
theorem published_uuid_frame:
  assumes "mesh_msg \<in> set (published (snd (main ext params mem pending)))"
  shows "uuid mesh_msg = ''uuid'' \<and> frame_id (mesh_header mesh_msg) = ''map''"
proof -
  from assms have
    "mesh_msg \<in> set (published (snd (spin ext (fst (VDBVolumeNode ext params mem)) pending)))"
    by (simp add: snd_main published_append VDBVolumeNode_published)
  then show ?thesis by (rule spin_published_fields)
qed

text \<open>
  A run that publishes: a scan in the frame \<open>lidar\<close> with a pose in the frame \<open>odom\<close> is
  integrated, then the service is called with the path \<open>/tmp/other\<close>.
\<close>
lemma main_sample_published:
  "published (snd (main recording_ext sample_params sample_mem
      [(PointCloudMsg (scan_at 100), sample_out True),
       (ServiceCall \<lparr>req_path = ''/tmp/other''\<rparr>, sample_out True)])) =
     [\<lparr>mesh_header = \<lparr>stamp = 123, frame_id = ''map''\<rparr>, uuid = ''uuid'',
       mesh_geometry =
         \<lparr>mg_vertices = [Point (Fin 5) (Fin 2) (Fin 3), Point (Fin 1) (Fin 7) (Fin 3),
                         Point (Fin 1) (Fin 2) (Fin 9)],
          mg_vertex_normals = [],
          mg_faces = [\<lparr>vertex_indices = [0, 1, 2]\<rparr>]\<rparr>\<rparr>]"
  by (simp add: main_def VDBVolumeNode_def Let_def sample_params_def sample_mem_def getParam_def
        callback_def saveVDBVolume_closed InitVDBVolume_def Integrate_def sample_out_def dgt_def
        extracted_mesh_def recording_ext_def recorded_mesh_def vertex_points_def
        triangle_indices_def scan_at_def buffer_lookUp_def pose_at_100_def shift_cloud_def
        pcl2SensorMsgToEigen_map published_append)

theorem published_uuid_frame_witness:
  "published (snd (main recording_ext sample_params sample_mem
      [(PointCloudMsg (scan_at 100), sample_out True),
       (ServiceCall \<lparr>req_path = ''/tmp/other''\<rparr>, sample_out True)])) \<noteq> [] \<and>
   uuid (hd (published (snd (main recording_ext sample_params sample_mem
      [(PointCloudMsg (scan_at 100), sample_out True),
       (ServiceCall \<lparr>req_path = ''/tmp/other''\<rparr>, sample_out True)])))) = ''uuid'' \<and>
   frame_id (mesh_header (hd (published (snd (main recording_ext sample_params sample_mem
      [(PointCloudMsg (scan_at 100), sample_out True),
       (ServiceCall \<lparr>req_path = ''/tmp/other''\<rparr>, sample_out True)]))))) = ''map''"
proof -
  let ?run = "published (snd (main recording_ext sample_params sample_mem
      [(PointCloudMsg (scan_at 100), sample_out True),
       (ServiceCall \<lparr>req_path = ''/tmp/other''\<rparr>, sample_out True)]))"
  have ne: "?run \<noteq> []" by (simp add: main_sample_published)
  then have "hd ?run \<in> set ?run" by simp
  from published_uuid_frame [OF this] ne show ?thesis by simp
qed

end
